theory Spec2Isabelle
  imports Main "HOL-Library.Word"
begin

section \<open>The FIT file processor service (packages/fit-processor/main.py)\<close>

text \<open>
  The service has three functions: \<open>process_fit_file\<close> (POST /process-fit), which
  answers with a fixed mock structure stamped with the current time;
  \<open>process_uploaded_file\<close> (POST /process-upload), which checks the file name,
  reads the upload and hands the bytes to \<open>parse_fit_file\<close>; and \<open>parse_fit_file\<close>,
  which iterates over the frames that the fitdecode library produces for the bytes.

  The fitdecode library, the upload object and the clock are collaborators whose code
  is not part of the service. They enter the model as inputs: the frame iteration that
  \<open>fitdecode.FitReader\<close> performs on a buffer, the outcome of \<open>await file.read()\<close>, and
  the string that \<open>datetime.now().isoformat()\<close> returns. Where a property depends on
  what the decoder does with the content of a file (a data message without definition,
  a file without records), the reader is the one the specification designs, with the
  exceptions it raises left open.
\<close>

subsection \<open>Python values\<close>

type_synonym byte = "8 word"

text \<open>
  The values of type \<open>Any\<close> that occur in the dictionaries of the service. A float is
  kept as the decimal literal of the source: \<open>PFloat m k\<close> stands for the literal
  \<open>m / 10^k\<close> (\<open>6.94\<close> is \<open>PFloat 694 2\<close>). A dictionary is an association list in
  insertion order.
\<close>

datatype pyval =
    PNone
  | PBool bool
  | PInt int
  | PFloat int nat
  | PStr string
  | PList "pyval list"
  | PDict "(string \<times> pyval) list"

text \<open>
  The dictionary literal of lines 108-113 (and of lines 47-67) has exactly the keys
  \<open>metadata\<close>, \<open>records\<close>, \<open>laps\<close> and \<open>sessions\<close>.
\<close>

record activity_data =
  metadata :: "(string \<times> pyval) list"
  records :: "pyval list"
  laps :: "pyval list"
  sessions :: "pyval list"

subsection \<open>Exceptions\<close>

text \<open>
  \<open>Exc c s\<close> is an exception object of class \<open>c\<close> (a subclass of \<open>Exception\<close> other
  than \<open>HTTPException\<close>) for which \<open>str\<close> gives \<open>s\<close>; \<open>HTTPException\<close> is FastAPI's
  exception with its status code and detail. What \<open>str\<close> gives for an
  \<open>HTTPException\<close> depends on the installed framework version, so it is a parameter.
  Both handlers of the service catch \<open>Exception\<close>; interrupts and exits, which are
  outside that class, are not part of the model.
\<close>

datatype exn =
    Exc (exc_class: string) (exc_text: string)
  | HTTPException (status_code: nat) (detail: string)

fun str :: "(nat \<Rightarrow> string \<Rightarrow> string) \<Rightarrow> exn \<Rightarrow> string" where
  "str http_str (Exc c s) = s"
| "str http_str (HTTPException code d) = http_str code d"

subsection \<open>What fitdecode hands to the service\<close>

datatype fit_frame_type = FIT_FRAME_HEADER | FIT_FRAME_DEFINITION | FIT_FRAME_DATA | FIT_FRAME_CRC

datatype base_type =
    Enum | SInt8 | UInt8 | SInt16 | UInt16 | SInt32 | UInt32 | String
  | Float32 | Float64 | UInt8z | UInt16z | UInt32z | Byte | SInt64 | UInt64 | UInt64z

text \<open>One field of a data message: its name, its base type and the raw value read.\<close>

record field_data =
  field_name :: string
  field_base_type :: base_type
  raw_value :: int

text \<open>
  The frames of a FIT stream, with the attributes the service and its specification
  refer to: the header's declared data size, the local message number and the message
  name of definition and data messages, and the fields of a data message.
\<close>

datatype frame =
    FitHeader (body_size: nat)
  | FitDefinitionMessage (local_mesg_num: nat) (name: string)
  | FitDataMessage (local_mesg_num: nat) (name: string) (fields: "field_data list")
  | FitCRC

fun frame_type :: "frame \<Rightarrow> fit_frame_type" where
  "frame_type (FitHeader n) = FIT_FRAME_HEADER"
| "frame_type (FitDefinitionMessage l n) = FIT_FRAME_DEFINITION"
| "frame_type (FitDataMessage l n fs) = FIT_FRAME_DATA"
| "frame_type FitCRC = FIT_FRAME_CRC"

text \<open>
  Iterating over a reader yields frames one at a time and then either stops or raises
  an exception. A reader that cannot even be constructed is \<open>Raise\<close> at once. The
  buffer is finite, so the iteration is.
\<close>

datatype 'a iteration =
    Stop
  | Yield 'a "'a iteration"
  | Raise exn

fun yielded :: "'a iteration \<Rightarrow> 'a list" where
  "yielded Stop = []"
| "yielded (Yield x rest) = x # yielded rest"
| "yielded (Raise e) = []"

fun raised :: "'a iteration \<Rightarrow> exn option" where
  "raised Stop = None"
| "raised (Yield x rest) = raised rest"
| "raised (Raise e) = Some e"

type_synonym fit_reader = "byte list \<Rightarrow> frame iteration"

subsection \<open>parse_fit_file (lines 102-136)\<close>

text \<open>The body of the \<open>for\<close> loop, lines 116-131: every branch is \<open>pass\<close>.\<close>

definition loop_body :: "frame \<Rightarrow> activity_data \<Rightarrow> activity_data" where
  "loop_body frame activity_data =
     (if frame_type frame = FIT_FRAME_DATA then
        (if name frame = ''file_id'' then activity_data
         else if name frame = ''activity'' then activity_data
         else if name frame = ''session'' then activity_data
         else if name frame = ''lap'' then activity_data
         else if name frame = ''record'' then activity_data
         else activity_data)
      else activity_data)"

text \<open>The \<open>for\<close> loop of line 115 followed by the \<open>return\<close> of line 133.\<close>

fun for_frames :: "frame iteration \<Rightarrow> activity_data \<Rightarrow> exn + activity_data" where
  "for_frames Stop activity_data = Inr activity_data"
| "for_frames (Yield frame rest) activity_data = for_frames rest (loop_body frame activity_data)"
| "for_frames (Raise e) activity_data = Inl e"

definition initial_activity_data :: activity_data where
  "initial_activity_data = \<lparr>metadata = [], records = [], laps = [], sessions = []\<rparr>"

text \<open>
  The \<open>try\<close> block, and the handler of lines 135-136 that turns every exception into
  a plain \<open>Exception\<close> with a prefixed message.
\<close>

definition parse_fit_file_try :: "fit_reader \<Rightarrow> byte list \<Rightarrow> exn + activity_data" where
  "parse_fit_file_try reader file_content = for_frames (reader file_content) initial_activity_data"

definition parse_fit_file :: "(nat \<Rightarrow> string \<Rightarrow> string) \<Rightarrow> fit_reader \<Rightarrow> byte list \<Rightarrow> exn + activity_data" where
  "parse_fit_file http_str reader file_content =
     (case parse_fit_file_try reader file_content of
        Inr activity_data \<Rightarrow> Inr activity_data
      | Inl e \<Rightarrow> Inl (Exc ''Exception'' (''Failed to parse FIT file: '' @ str http_str e)))"


subsection \<open>process_uploaded_file (lines 78-100)\<close>

text \<open>
  Python's \<open>s.endswith(suffix)\<close>. The suffix tested is ASCII, so the test on the UTF-8
  bytes of a name agrees with the test on its code points.
\<close>

definition endswith :: "string \<Rightarrow> string \<Rightarrow> bool" where
  "endswith s suffix =
     (length suffix \<le> length s \<and> drop (length s - length suffix) s = suffix)"

text \<open>
  The upload: its file name (FastAPI declares it optional) and what \<open>await file.read()\<close>
  gives, the content or an exception.
\<close>

record upload_file =
  filename :: "string option"
  read :: "exn + byte list"

text \<open>The body of both endpoints' answers: \<open>success\<close>, \<open>data\<close> and \<open>message\<close>.\<close>

record response =
  success :: bool
  data :: activity_data
  message :: string

text \<open>
  The calls the handler makes on its collaborators, in order: reading the upload and
  invoking the decoder on a buffer.
\<close>

datatype call = FileRead | ParseFitFile "byte list"

text \<open>What \<open>None.endswith\<close> raises: the attribute error of line 84 for an absent name.\<close>

definition none_has_no_endswith :: exn where
  "none_has_no_endswith =
     Exc ''AttributeError''
       ([CHR 0x27] @ ''NoneType'' @ [CHR 0x27] @ '' object has no attribute '' @
        [CHR 0x27] @ ''endswith'' @ [CHR 0x27])"

text \<open>The \<open>try\<close> block, lines 84-97, with the calls made so far.\<close>

definition process_uploaded_file_try ::
  "(nat \<Rightarrow> string \<Rightarrow> string) \<Rightarrow> fit_reader \<Rightarrow> upload_file \<Rightarrow> (exn + response) \<times> call list" where
  "process_uploaded_file_try http_str reader file =
     (case filename file of
        None \<Rightarrow> (Inl none_has_no_endswith, [])
      | Some fname \<Rightarrow>
          if \<not> endswith fname ''.fit'' then
            (Inl (HTTPException 400 ''File must be a .fit file''), [])
          else
            (case read file of
               Inl e \<Rightarrow> (Inl e, [FileRead])
             | Inr content \<Rightarrow>
                 (case parse_fit_file http_str reader content of
                    Inl e \<Rightarrow> (Inl e, [FileRead, ParseFitFile content])
                  | Inr activity_data \<Rightarrow>
                      (Inr \<lparr>success = True, data = activity_data,
                            message = ''File processed successfully''\<rparr>,
                       [FileRead, ParseFitFile content]))))"

text \<open>The handler of lines 99-100 around it.\<close>

definition process_uploaded_file ::
  "(nat \<Rightarrow> string \<Rightarrow> string) \<Rightarrow> fit_reader \<Rightarrow> upload_file \<Rightarrow> (exn + response) \<times> call list" where
  "process_uploaded_file http_str reader file =
     (case process_uploaded_file_try http_str reader file of
        (Inr r, calls) \<Rightarrow> (Inr r, calls)
      | (Inl e, calls) \<Rightarrow>
          (Inl (HTTPException 500 (''Error processing file: '' @ str http_str e)), calls))"

subsection \<open>process_fit_file (lines 35-76)\<close>

record ProcessRequest =
  activityId :: string
  fileName :: string
  fileSize :: int

text \<open>
  The mock structure of lines 47-67; \<open>now_iso\<close> is what \<open>datetime.now().isoformat()\<close>
  returned when the request was served.
\<close>

definition mock_data :: "string \<Rightarrow> activity_data" where
  "mock_data now_iso =
     \<lparr>metadata =
        [(''device'', PStr ''Garmin Edge 530''),
         (''sport'', PStr ''cycling''),
         (''startTime'', PStr now_iso),
         (''totalTime'', PInt 3600),
         (''totalDistance'', PInt 25000),
         (''avgSpeed'', PFloat 694 2),
         (''maxSpeed'', PFloat 125 1),
         (''avgHeartRate'', PInt 150),
         (''maxHeartRate'', PInt 180),
         (''avgPower'', PInt 200),
         (''maxPower'', PInt 400),
         (''calories'', PInt 800),
         (''elevationGain'', PInt 500),
         (''temperature'', PInt 20)],
      records = [], laps = [], sessions = []\<rparr>"

definition process_fit_file_try :: "string \<Rightarrow> ProcessRequest \<Rightarrow> exn + response" where
  "process_fit_file_try now_iso request =
     Inr \<lparr>success = True, data = mock_data now_iso,
          message = ''FIT file processed successfully''\<rparr>"

definition process_fit_file ::
  "(nat \<Rightarrow> string \<Rightarrow> string) \<Rightarrow> string \<Rightarrow> ProcessRequest \<Rightarrow> exn + response" where
  "process_fit_file http_str now_iso request =
     (case process_fit_file_try now_iso request of
        Inr r \<Rightarrow> Inr r
      | Inl e \<Rightarrow> Inl (HTTPException 500 (''Error processing FIT file: '' @ str http_str e)))"

subsection \<open>Reading a result\<close>

text \<open>
  The values a result holds under a field name: in the metadata dictionary and in
  every record, lap and session that is a dictionary.
\<close>

fun dict_get :: "pyval \<Rightarrow> string \<Rightarrow> pyval option" where
  "dict_get (PDict kvs) k = map_of kvs k"
| "dict_get v k = None"

definition field_values :: "activity_data \<Rightarrow> string \<Rightarrow> pyval list" where
  "field_values r k =
     List.map_filter (\<lambda>d. dict_get d k) (PDict (metadata r) # records r @ laps r @ sessions r)"

subsection \<open>The error taxonomy of the specification\<close>

text \<open>
  Modelled from the spec: the typed errors \<open>HeaderInvalid\<close>, \<open>Truncated\<close>,
  \<open>UndefinedLocalMessage\<close>, \<open>SizeMismatch\<close>, \<open>MalformedMessage{offset}\<close> and
  \<open>CrcMismatch\<close> of the output contract. No code of the service declares them; an
  exception is one of them when its class bears one of these names.
\<close>

definition fit_error_classes :: "string list" where
  "fit_error_classes =
     [''HeaderInvalid'', ''Truncated'', ''UndefinedLocalMessage'', ''SizeMismatch'',
      ''MalformedMessage'', ''CrcMismatch'']"

fun is_fit_error :: "exn \<Rightarrow> bool" where
  "is_fit_error (Exc c s) = (c \<in> set fit_error_classes)"
| "is_fit_error (HTTPException code d) = False"

subsection \<open>The decoder behind the reader\<close>

text \<open>
  Modelled from the spec: the explicit absent-value marker of the error handling
  design, which no code of the service produces. A result marks a field absent when
  it holds \<open>None\<close> under the field's name, in the metadata or in a record, lap or
  session.
\<close>

definition marks_absent :: "activity_data \<Rightarrow> string \<Rightarrow> bool" where
  "marks_absent r k = (PNone \<in> set (field_values r k))"

text \<open>
  Modelled from the spec: the layout of a FIT file in the data model (file header,
  definition and data messages), which the service leaves to fitdecode: the data size
  its header declares, the records of its data section in order, and its trailing CRC. A definition message carries its local
  message number and the name of its global message; a data message carries its local
  message number and its fields.
\<close>

datatype fit_record =
    DefinitionRecord nat string
  | DataRecord nat "field_data list"

datatype trailer = CrcValid | CrcInvalid | CrcAbsent

record fit_layout =
  data_size :: nat
  body :: "fit_record list"
  trailer :: trailer

text \<open>
  Modelled from the spec: what the decoder raises where the specification leaves the
  outcome to the implementation or the library differs from it: the exception for a data message
  whose local message number is undefined, and the exception, if any, for a trailing
  CRC that does not match or is missing.
\<close>

record decoder_policy =
  undefined_local_error :: "nat \<Rightarrow> exn"
  crc_invalid_error :: "exn option"
  crc_absent_error :: "exn option"

text \<open>
  Modelled from the spec: the FitReader orchestration with its DefinitionTable, which
  the service leaves to fitdecode. After the header the reader goes through the
  records: a definition message overwrites the table entry of its local message number
  and is yielded; a data message is looked up in the table, the lookup failing when no
  definition has been seen for its local message number, and is yielded under the name
  of the defined global message. After the data section the trailing CRC is read.
\<close>

fun read_trailer :: "decoder_policy \<Rightarrow> trailer \<Rightarrow> frame iteration" where
  "read_trailer policy CrcValid = Yield FitCRC Stop"
| "read_trailer policy CrcInvalid =
     (case crc_invalid_error policy of None \<Rightarrow> Yield FitCRC Stop | Some e \<Rightarrow> Raise e)"
| "read_trailer policy CrcAbsent =
     (case crc_absent_error policy of None \<Rightarrow> Stop | Some e \<Rightarrow> Raise e)"

fun read_records ::
  "decoder_policy \<Rightarrow> (nat \<rightharpoonup> string) \<Rightarrow> fit_record list \<Rightarrow> trailer \<Rightarrow> frame iteration" where
  "read_records policy table [] t = read_trailer policy t"
| "read_records policy table (DefinitionRecord l g # rs) t =
     Yield (FitDefinitionMessage l g) (read_records policy (table(l \<mapsto> g)) rs t)"
| "read_records policy table (DataRecord l fs # rs) t =
     (case table l of
        None \<Rightarrow> Raise (undefined_local_error policy l)
      | Some g \<Rightarrow> Yield (FitDataMessage l g fs) (read_records policy table rs t))"

text \<open>
  The binary grammar that splits a buffer into header, records and CRC is not modelled:
  \<open>layout_of\<close> gives the layout of a buffer, or the exception raised for a buffer
  without a valid header.
\<close>

definition FitReader ::
  "decoder_policy \<Rightarrow> (byte list \<Rightarrow> exn + fit_layout) \<Rightarrow> fit_reader" where
  "FitReader policy layout_of file_content =
     (case layout_of file_content of
        Inl e \<Rightarrow> Raise e
      | Inr lay \<Rightarrow>
          Yield (FitHeader (data_size lay))
            (read_records policy Map.empty (body lay) (trailer lay)))"

subsection \<open>Sample inputs\<close>

text \<open>
  A framework version in which \<open>str\<close> of an \<open>HTTPException\<close> is
  \<open>"{status_code}: {detail}"\<close>; a status code has three decimal digits.
\<close>

definition status_colon_detail :: "nat \<Rightarrow> string \<Rightarrow> string" where
  "status_colon_detail code d =
     map (\<lambda>k. ''0123456789'' ! (code div k mod 10)) [100, 10, 1] @ '': '' @ d"

text \<open>
  Five buffers. The smallest FIT file: a 12-byte header (protocol 1.0, profile 100,
  data size 0, the tag \<open>.FIT\<close>) followed by its CRC. The same file without the CRC.
  The same header with data size 1 and the single record header \<open>0x03\<close>: a data message
  on local message number 3, which no definition message precedes. A ride: five
  definition messages (file_id, event, record, lap, session), each with one field of
  one byte and followed by its data message; the record's heart rate is \<open>0xFF\<close>, the
  invalid value of its base type. And a buffer that is no FIT file.
\<close>

definition minimal_file :: "byte list" where
  "minimal_file = [12, 16, 100, 0, 0, 0, 0, 0, 46, 70, 73, 84, 216, 41]"

definition header_only_file :: "byte list" where
  "header_only_file = [12, 16, 100, 0, 0, 0, 0, 0, 46, 70, 73, 84]"

definition undefined_local_file :: "byte list" where
  "undefined_local_file = [12, 16, 100, 0, 1, 0, 0, 0, 46, 70, 73, 84, 3, 100, 203]"

definition ride_file :: "byte list" where
  "ride_file =
     [12, 16, 100, 0, 55, 0, 0, 0, 46, 70, 73, 84,
      64, 0, 0, 0, 0, 1, 0, 1, 0,   0, 4,
      65, 0, 0, 21, 0, 1, 0, 1, 0,  1, 0,
      66, 0, 0, 20, 0, 1, 3, 1, 2,  2, 255,
      67, 0, 0, 19, 0, 1, 0, 1, 0,  3, 9,
      68, 0, 0, 18, 0, 1, 0, 1, 0,  4, 8,
      133, 143]"

definition not_a_fit_file :: "byte list" where
  "not_a_fit_file = [0]"

definition heart_rate_invalid :: field_data where
  "heart_rate_invalid = \<lparr>field_name = ''heart_rate'', field_base_type = UInt8, raw_value = 255\<rparr>"

definition enum_field :: "string \<Rightarrow> int \<Rightarrow> field_data" where
  "enum_field k v = \<lparr>field_name = k, field_base_type = Enum, raw_value = v\<rparr>"

definition ride_records :: "fit_record list" where
  "ride_records =
     [DefinitionRecord 0 ''file_id'', DataRecord 0 [enum_field ''type'' 4],
      DefinitionRecord 1 ''event'', DataRecord 1 [enum_field ''event'' 0],
      DefinitionRecord 2 ''record'', DataRecord 2 [heart_rate_invalid],
      DefinitionRecord 3 ''lap'', DataRecord 3 [enum_field ''event'' 9],
      DefinitionRecord 4 ''session'', DataRecord 4 [enum_field ''event'' 8]]"

text \<open>
  The layouts of these buffers. Any other buffer is treated here like the one that is
  no FIT file.
\<close>

definition sample_layout :: "byte list \<Rightarrow> exn + fit_layout" where
  "sample_layout file_content =
     (if file_content = minimal_file then
        Inr \<lparr>data_size = 0, body = [], trailer = CrcValid\<rparr>
      else if file_content = header_only_file then
        Inr \<lparr>data_size = 0, body = [], trailer = CrcAbsent\<rparr>
      else if file_content = undefined_local_file then
        Inr \<lparr>data_size = 1, body = [DataRecord 3 []], trailer = CrcValid\<rparr>
      else if file_content = ride_file then
        Inr \<lparr>data_size = 55, body = ride_records, trailer = CrcValid\<rparr>
      else Inl (Exc ''FitHeaderError'' ''not a FIT file''))"

text \<open>
  The library as the service constructs it: a parse error for an undefined local
  message number, an end-of-file error for a missing CRC, and a mismatching CRC let
  pass. The texts stand for those the installed version prints.
\<close>

fun decimal :: "nat \<Rightarrow> string" where
  "decimal n =
     (if n < 10 then [''0123456789'' ! n]
      else decimal (n div 10) @ [''0123456789'' ! (n mod 10)])"

definition fitdecode_policy :: decoder_policy where
  "fitdecode_policy =
     \<lparr>undefined_local_error =
        (\<lambda>l. Exc ''FitParseError'' (''local message '' @ decimal l @ '' not defined'')),
      crc_invalid_error = None,
      crc_absent_error = Some (Exc ''FitEOFError'' ''unexpected end of file'')\<rparr>"

definition strict_reader :: fit_reader where
  "strict_reader = FitReader fitdecode_policy sample_layout"

text \<open>The frames of the ride.\<close>

definition ride_frames :: "frame iteration" where
  "ride_frames =
     Yield (FitHeader 55)
       (Yield (FitDefinitionMessage 0 ''file_id'')
       (Yield (FitDataMessage 0 ''file_id'' [enum_field ''type'' 4])
       (Yield (FitDefinitionMessage 1 ''event'')
       (Yield (FitDataMessage 1 ''event'' [enum_field ''event'' 0])
       (Yield (FitDefinitionMessage 2 ''record'')
       (Yield (FitDataMessage 2 ''record'' [heart_rate_invalid])
       (Yield (FitDefinitionMessage 3 ''lap'')
       (Yield (FitDataMessage 3 ''lap'' [enum_field ''event'' 9])
       (Yield (FitDefinitionMessage 4 ''session'')
       (Yield (FitDataMessage 4 ''session'' [enum_field ''event'' 8])
       (Yield FitCRC Stop)))))))))))"

definition uint8_invalid :: "base_type \<Rightarrow> int" where
  "uint8_invalid t = (if t = UInt8 then 255 else 0)"

definition sample_request :: ProcessRequest where
  "sample_request = \<lparr>activityId = ''a1'', fileName = ''ride.fit'', fileSize = 14\<rparr>"

text \<open>An upload that is a text file.\<close>

definition text_upload :: upload_file where
  "text_upload = \<lparr>filename = Some ''notes.txt'', read = Inr [104, 105]\<rparr>"

section \<open>Properties\<close>

subsection \<open>The loop and the decoder\<close>

lemma loop_body_ident: "loop_body frame activity_data = activity_data"
  by (simp add: loop_body_def)

lemma for_frames_result:
  "for_frames it acc = (case raised it of None \<Rightarrow> Inr acc | Some e \<Rightarrow> Inl e)"
  by (induction it arbitrary: acc) (simp_all add: loop_body_ident)

lemma parse_fit_file_result:
  "parse_fit_file http_str reader file_content =
     (case raised (reader file_content) of
        None \<Rightarrow> Inr initial_activity_data
      | Some e \<Rightarrow> Inl (Exc ''Exception'' (''Failed to parse FIT file: '' @ str http_str e)))"
  by (simp add: parse_fit_file_def parse_fit_file_try_def for_frames_result split: option.splits)

lemma parse_fit_file_Inr:
  "parse_fit_file http_str reader file_content = Inr result \<Longrightarrow>
     raised (reader file_content) = None \<and> result = initial_activity_data"
  by (auto simp add: parse_fit_file_result split: option.splits)

lemma field_values_initial: "field_values initial_activity_data k = []"
  by (simp add: field_values_def initial_activity_data_def List.map_filter_simps)

lemma process_uploaded_file_failure:
  "fst (process_uploaded_file http_str reader file) = Inl e \<Longrightarrow> \<exists>d. e = HTTPException 500 d"
  by (cases "process_uploaded_file_try http_str reader file";
      cases "fst (process_uploaded_file_try http_str reader file)")
     (auto simp add: process_uploaded_file_def)

lemma endswith_iff: "endswith s suffix = (\<exists>front. s = front @ suffix)"
proof
  assume "endswith s suffix"
  then have "s = take (length s - length suffix) s @ suffix"
    by (simp add: endswith_def) (metis append_take_drop_id)
  then show "\<exists>front. s = front @ suffix" ..
next
  assume "\<exists>front. s = front @ suffix"
  then show "endswith s suffix"
    by (auto simp add: endswith_def)
qed

subsection \<open>The sample reader and the definition table\<close>

lemma strict_reader_minimal:
  "strict_reader minimal_file = Yield (FitHeader 0) (Yield FitCRC Stop)"
  by (simp add: strict_reader_def FitReader_def sample_layout_def)

lemma strict_reader_header_only:
  "strict_reader header_only_file =
     Yield (FitHeader 0) (Raise (Exc ''FitEOFError'' ''unexpected end of file''))"
  by (simp add: strict_reader_def FitReader_def sample_layout_def fitdecode_policy_def
      header_only_file_def minimal_file_def)


lemma strict_reader_not_a_fit_file:
  "strict_reader not_a_fit_file = Raise (Exc ''FitHeaderError'' ''not a FIT file'')"
  by (simp add: strict_reader_def FitReader_def sample_layout_def not_a_fit_file_def
      header_only_file_def minimal_file_def undefined_local_file_def ride_file_def)

lemma strict_reader_ride: "strict_reader ride_file = ride_frames"
  by (simp add: strict_reader_def FitReader_def sample_layout_def ride_file_def
      header_only_file_def minimal_file_def undefined_local_file_def ride_records_def
      ride_frames_def)


lemma FitReader_layout:
  "layout_of file_content = Inr lay \<Longrightarrow>
     raised (FitReader policy layout_of file_content)
       = raised (read_records policy Map.empty (body lay) (trailer lay))"
  by (simp add: FitReader_def)

lemma parse_ride:
  "parse_fit_file status_colon_detail strict_reader ride_file = Inr initial_activity_data"
  by (simp add: parse_fit_file_result strict_reader_ride ride_frames_def)

subsection \<open>What a successful parse returns\<close>

text \<open>
  Claim C1. Whenever \<open>parse_fit_file\<close> returns, the result has an empty metadata
  dictionary and empty records, laps and sessions, whatever frames the reader yielded:
  the loop body leaves the accumulated result as it was for every frame, so no branch
  (file_id, activity, session, lap, record) extracts anything.
\<close>

theorem parse_fit_file_returns_empty:
  "parse_fit_file http_str reader file_content = Inr result \<Longrightarrow>
     result = \<lparr>metadata = [], records = [], laps = [], sessions = []\<rparr> \<and>
     loop_body frame acc = acc"
  by (simp add: parse_fit_file_result loop_body_ident initial_activity_data_def
      split: option.splits)

theorem parse_fit_file_returns_empty_witness:
  "parse_fit_file status_colon_detail strict_reader ride_file = Inr initial_activity_data \<and>
   initial_activity_data = \<lparr>metadata = [], records = [], laps = [], sessions = []\<rparr> \<and>
   loop_body (FitDataMessage 2 ''record'' [heart_rate_invalid]) initial_activity_data
     = initial_activity_data"
proof -
  have h: "parse_fit_file status_colon_detail strict_reader ride_file = Inr initial_activity_data"
    by (rule parse_ride)
  from parse_fit_file_returns_empty [OF h] show ?thesis
    using h by simp
qed

subsection \<open>Determinism\<close>

text \<open>
  Claim C2, as stated, fails for the /process-fit endpoint: the response carries the
  clock reading of the invocation under \<open>startTime\<close>, so two invocations for the same
  request that read different clock values answer differently.
\<close>

theorem process_fit_file_counterexample:
  "process_fit_file status_colon_detail ''2024-05-01T10:00:00.000001'' sample_request
     \<noteq> process_fit_file status_colon_detail ''2024-05-01T10:00:00.000002'' sample_request"
  by (simp add: process_fit_file_def process_fit_file_try_def mock_data_def)

text \<open>
  Claim C2, amended. For a fixed request, two invocations of /process-fit give the
  same response exactly when they read the same clock string; and the outcome of
  \<open>parse_fit_file\<close> on a buffer is fixed by the frame iteration the reader performs
  on that buffer.
\<close>

theorem process_fit_file_clock:
  "(process_fit_file http_str now1 request = process_fit_file http_str now2 request) = (now1 = now2)
   \<and> (reader file_content = reader' file_content \<longrightarrow>
        parse_fit_file http_str reader file_content = parse_fit_file http_str reader' file_content)"
  by (auto simp add: process_fit_file_def process_fit_file_try_def mock_data_def
      parse_fit_file_def parse_fit_file_try_def)

theorem process_fit_file_clock_witness:
  "(process_fit_file status_colon_detail ''2024-05-01T10:00:00.000001'' sample_request =
      process_fit_file status_colon_detail ''2024-05-01T10:00:00.000001'' sample_request) \<and>
   strict_reader minimal_file = Yield (FitHeader 0) (Yield FitCRC Stop) \<and>
   parse_fit_file status_colon_detail strict_reader minimal_file =
     parse_fit_file status_colon_detail strict_reader minimal_file"
proof -
  have h: "strict_reader minimal_file = strict_reader minimal_file" ..
  from process_fit_file_clock [of status_colon_detail "''2024-05-01T10:00:00.000001''"
      sample_request "''2024-05-01T10:00:00.000001''" strict_reader minimal_file strict_reader]
  show ?thesis using h by (simp add: strict_reader_minimal)
qed

subsection \<open>The shape of failures\<close>

text \<open>
  Claim C3, as stated, fails: on a buffer for which the reader raises, the decoder
  fails with a plain \<open>Exception\<close>, which is none of the enumerated typed errors.
\<close>

theorem typed_errors_counterexample:
  "parse_fit_file status_colon_detail strict_reader not_a_fit_file =
     Inl (Exc ''Exception'' ''Failed to parse FIT file: not a FIT file'') \<and>
   \<not> is_fit_error (Exc ''Exception'' ''Failed to parse FIT file: not a FIT file'')"
  by (simp add: parse_fit_file_result strict_reader_not_a_fit_file fit_error_classes_def)

text \<open>
  Claim C3, amended. For every buffer, \<open>parse_fit_file\<close> either returns the empty
  activity structure (when the frame iteration ends without raising), or fails with a
  plain \<open>Exception\<close> whose message is \<open>Failed to parse FIT file: \<close> followed by the
  text of the exception the iteration raised. No other failure escapes, and the failure
  is never one of the typed errors.
\<close>

theorem parse_fit_file_outcomes:
  "(raised (reader file_content) = None \<and>
      parse_fit_file http_str reader file_content = Inr initial_activity_data) \<or>
   (\<exists>e. raised (reader file_content) = Some e \<and>
      parse_fit_file http_str reader file_content =
        Inl (Exc ''Exception'' (''Failed to parse FIT file: '' @ str http_str e)) \<and>
      \<not> is_fit_error (Exc ''Exception'' (''Failed to parse FIT file: '' @ str http_str e)))"
  by (cases "raised (reader file_content)")
     (simp_all add: parse_fit_file_result fit_error_classes_def)

subsection \<open>The upload endpoint\<close>

text \<open>
  Claim C4. An upload whose file name does not end in \<open>.fit\<close> (or that has no name) is
  rejected: the endpoint fails, and it does so before making any call on its
  collaborators, so the decoder is never invoked on the content (nor is the upload
  read).
\<close>

theorem non_fit_filename_never_decoded:
  "\<forall>fname. filename file = Some fname \<longrightarrow> \<not> endswith fname ''.fit'' \<Longrightarrow>
     (\<exists>d. fst (process_uploaded_file http_str reader file) = Inl (HTTPException 500 d)) \<and>
     snd (process_uploaded_file http_str reader file) = [] \<and>
     ParseFitFile content \<notin> set (snd (process_uploaded_file http_str reader file))"
  by (cases "filename file")
     (simp_all add: process_uploaded_file_def process_uploaded_file_try_def)

theorem non_fit_filename_never_decoded_witness:
  "filename text_upload = Some ''notes.txt'' \<and> \<not> endswith ''notes.txt'' ''.fit'' \<and>
   fst (process_uploaded_file status_colon_detail strict_reader text_upload)
     = Inl (HTTPException 500 ''Error processing file: 400: File must be a .fit file'') \<and>
   snd (process_uploaded_file status_colon_detail strict_reader text_upload) = [] \<and>
   ParseFitFile [104, 105]
     \<notin> set (snd (process_uploaded_file status_colon_detail strict_reader text_upload))"
proof -
  have h: "\<forall>fname. filename text_upload = Some fname \<longrightarrow> \<not> endswith fname ''.fit''"
    by (simp add: text_upload_def endswith_def)
  have v: "fst (process_uploaded_file status_colon_detail strict_reader text_upload)
     = Inl (HTTPException 500 ''Error processing file: 400: File must be a .fit file'')"
    by (simp add: process_uploaded_file_def process_uploaded_file_try_def text_upload_def
        endswith_def status_colon_detail_def)
  have n: "filename text_upload = Some ''notes.txt'' \<and> \<not> endswith ''notes.txt'' ''.fit''"
    by (simp add: text_upload_def endswith_def)
  from non_fit_filename_never_decoded [OF h, of status_colon_detail strict_reader "[104, 105]"]
  show ?thesis using n v by simp
qed

text \<open>
  Claim C5. Every failure of the upload endpoint reaches the client as an
  \<open>HTTPException\<close> with status 500, never 400. In particular the rejection of a file
  name that does not end in \<open>.fit\<close> is raised inside the \<open>try\<close> block with status 400,
  caught by the handler of that block and raised again with status 500.
\<close>

theorem upload_failures_are_500:
  "(fst (process_uploaded_file http_str reader file) = Inl e \<longrightarrow>
      (\<exists>d. e = HTTPException 500 d) \<and> e \<noteq> HTTPException 400 d') \<and>
   (filename file = Some fname \<and> \<not> endswith fname ''.fit'' \<longrightarrow>
      fst (process_uploaded_file_try http_str reader file)
        = Inl (HTTPException 400 ''File must be a .fit file'') \<and>
      fst (process_uploaded_file http_str reader file)
        = Inl (HTTPException 500
            (''Error processing file: '' @ http_str 400 ''File must be a .fit file'')))"
proof (intro conjI impI)
  assume a: "fst (process_uploaded_file http_str reader file) = Inl e"
  from process_uploaded_file_failure [OF a] show "\<exists>d. e = HTTPException 500 d" .
  then show "e \<noteq> HTTPException 400 d'" by auto
next
  assume b: "filename file = Some fname \<and> \<not> endswith fname ''.fit''"
  then show "fst (process_uploaded_file_try http_str reader file)
        = Inl (HTTPException 400 ''File must be a .fit file'')"
    by (simp add: process_uploaded_file_try_def)
  from b show "fst (process_uploaded_file http_str reader file)
        = Inl (HTTPException 500
            (''Error processing file: '' @ http_str 400 ''File must be a .fit file''))"
    by (simp add: process_uploaded_file_def process_uploaded_file_try_def)
qed

theorem upload_failures_are_500_witness:
  "filename text_upload = Some ''notes.txt'' \<and> \<not> endswith ''notes.txt'' ''.fit'' \<and>
   fst (process_uploaded_file_try status_colon_detail strict_reader text_upload)
     = Inl (HTTPException 400 ''File must be a .fit file'') \<and>
   fst (process_uploaded_file status_colon_detail strict_reader text_upload)
     = Inl (HTTPException 500 ''Error processing file: 400: File must be a .fit file'')"
proof -
  have h: "filename text_upload = Some ''notes.txt'' \<and> \<not> endswith ''notes.txt'' ''.fit''"
    by (simp add: text_upload_def endswith_def)
  from upload_failures_are_500 [of status_colon_detail strict_reader text_upload
      "HTTPException 500 ''Error processing file: 400: File must be a .fit file''"
      "''File must be a .fit file''" "''notes.txt''"]
  show ?thesis using h by (simp add: status_colon_detail_def)
qed

subsection \<open>Undefined local message numbers\<close>




subsection \<open>Invalid values\<close>

text \<open>
  Claim C7, as stated, fails. The ride holds a record whose heart rate is \<open>0xFF\<close>, the
  invalid value of its base type; the parse returns, and its result does not mark the
  heart rate absent: it holds no marker under that name.
\<close>

theorem sentinel_not_marked_counterexample:
  "parse_fit_file status_colon_detail strict_reader ride_file = Inr initial_activity_data \<and>
   FitDataMessage 2 ''record'' [heart_rate_invalid] \<in> set (yielded (strict_reader ride_file)) \<and>
   field_base_type heart_rate_invalid = UInt8 \<and> raw_value heart_rate_invalid = 255 \<and>
   \<not> marks_absent initial_activity_data (field_name heart_rate_invalid)"
  by (simp add: parse_ride strict_reader_ride ride_frames_def heart_rate_invalid_def
      marks_absent_def field_values_initial)

text \<open>
  Claim C7, amended. Let a parse return, and let a data message of the stream carry a
  field whose raw value is the invalid value of its base type (for any table of invalid
  values). Then the invalid value's number does not appear as the field's value in the
  result; the result does not mark the field absent either: it holds nothing at all
  under the field's name, in the metadata or in any record, lap or session.
\<close>

theorem sentinel_field_not_in_result:
  "parse_fit_file http_str reader file_content = Inr result \<Longrightarrow>
   FitDataMessage l n fs \<in> set (yielded (reader file_content)) \<Longrightarrow>
   f \<in> set fs \<Longrightarrow>
   raw_value f = invalid_value (field_base_type f) \<Longrightarrow>
     PInt (raw_value f) \<notin> set (field_values result (field_name f)) \<and>
     \<not> marks_absent result (field_name f) \<and>
     field_values result (field_name f) = []"
proof -
  assume "parse_fit_file http_str reader file_content = Inr result"
  then have "result = initial_activity_data"
    by (simp add: parse_fit_file_Inr)
  then show ?thesis
    by (simp add: field_values_initial marks_absent_def)
qed

theorem sentinel_field_not_in_result_witness:
  "parse_fit_file status_colon_detail strict_reader ride_file = Inr initial_activity_data \<and>
   FitDataMessage 2 ''record'' [heart_rate_invalid] \<in> set (yielded (strict_reader ride_file)) \<and>
   heart_rate_invalid \<in> set [heart_rate_invalid] \<and>
   raw_value heart_rate_invalid = uint8_invalid (field_base_type heart_rate_invalid) \<and>
   PInt 255 \<notin> set (field_values initial_activity_data ''heart_rate'') \<and>
   \<not> marks_absent initial_activity_data ''heart_rate'' \<and>
   field_values initial_activity_data ''heart_rate'' = []"
proof -
  have h1: "parse_fit_file status_colon_detail strict_reader ride_file = Inr initial_activity_data"
    by (rule parse_ride)
  have h2: "FitDataMessage 2 ''record'' [heart_rate_invalid]
              \<in> set (yielded (strict_reader ride_file))"
    by (simp add: strict_reader_ride ride_frames_def)
  have h3: "heart_rate_invalid \<in> set [heart_rate_invalid]" by simp
  have h4: "raw_value heart_rate_invalid = uint8_invalid (field_base_type heart_rate_invalid)"
    by (simp add: heart_rate_invalid_def uint8_invalid_def)
  from sentinel_field_not_in_result [of status_colon_detail strict_reader ride_file
      initial_activity_data 2 "''record''" "[heart_rate_invalid]" heart_rate_invalid
      uint8_invalid, OF h1 h2 h3 h4]
  show ?thesis
    using h1 h2 h4 by (simp add: heart_rate_invalid_def)
qed

subsection \<open>The minimal file\<close>

text \<open>
  Claim C8, as stated, fails. The file that consists of the 12-byte header alone
  declares data size 0 and holds no record; its CRC is absent. The decoder raises at
  the end of the file and the parse fails.
\<close>

theorem absent_crc_counterexample:
  "sample_layout header_only_file
     = Inr \<lparr>data_size = 0, body = [], trailer = CrcAbsent\<rparr> \<and>
   parse_fit_file status_colon_detail strict_reader header_only_file =
     Inl (Exc ''Exception'' ''Failed to parse FIT file: unexpected end of file'')"
proof -
  have layout: "sample_layout header_only_file
     = Inr \<lparr>data_size = 0, body = [], trailer = CrcAbsent\<rparr>"
    by (simp add: sample_layout_def header_only_file_def minimal_file_def)
  have failure: "parse_fit_file status_colon_detail strict_reader header_only_file =
     Inl (Exc ''Exception'' ''Failed to parse FIT file: unexpected end of file'')"
    by (simp add: parse_fit_file_result strict_reader_header_only)
  show ?thesis using layout failure by simp
qed

text \<open>
  Claim C8, amended. For every file whose header declares data size 0, that holds no
  record and that ends with a valid CRC, the parse succeeds, and its result has empty
  records, laps and sessions.
\<close>

theorem minimal_file_with_crc_decodes_empty:
  "layout_of file_content = Inr \<lparr>data_size = 0, body = [], trailer = CrcValid\<rparr> \<Longrightarrow>
     \<exists>result. parse_fit_file http_str (FitReader policy layout_of) file_content = Inr result \<and>
       records result = [] \<and> laps result = [] \<and> sessions result = []"
  by (simp add: parse_fit_file_result FitReader_layout initial_activity_data_def)

theorem minimal_file_with_crc_decodes_empty_witness:
  "sample_layout minimal_file = Inr \<lparr>data_size = 0, body = [], trailer = CrcValid\<rparr> \<and>
   parse_fit_file status_colon_detail (FitReader fitdecode_policy sample_layout) minimal_file
     = Inr initial_activity_data \<and>
   records initial_activity_data = [] \<and> laps initial_activity_data = [] \<and>
   sessions initial_activity_data = []"
proof -
  have h: "sample_layout minimal_file = Inr \<lparr>data_size = 0, body = [], trailer = CrcValid\<rparr>"
    by (simp add: sample_layout_def)
  from minimal_file_with_crc_decodes_empty [of sample_layout minimal_file status_colon_detail
      fitdecode_policy, OF h]
  obtain result where
    "parse_fit_file status_colon_detail (FitReader fitdecode_policy sample_layout) minimal_file
       = Inr result" by blast
  then have "parse_fit_file status_colon_detail (FitReader fitdecode_policy sample_layout)
       minimal_file = Inr initial_activity_data"
    by (simp add: parse_fit_file_Inr)
  then show ?thesis using h by (simp add: initial_activity_data_def)
qed

subsection \<open>The records list\<close>

text \<open>
  Claim C9. When a parse returns, the records of the result are in non-decreasing
  order of their timestamps, whatever reading of a record's timestamp is taken; and
  processing a lap or a session message leaves the records list as it was.
\<close>

theorem records_sorted_and_untouched:
  "parse_fit_file http_str reader file_content = Inr result \<Longrightarrow>
     sorted (map timestamp (records result)) \<and>
     records (loop_body (FitDataMessage l ''lap'' fs) acc) = records acc \<and>
     records (loop_body (FitDataMessage l' ''session'' fs') acc') = records acc'"
  by (auto simp add: initial_activity_data_def loop_body_ident dest: parse_fit_file_Inr)

theorem records_sorted_and_untouched_witness:
  "parse_fit_file status_colon_detail strict_reader ride_file = Inr initial_activity_data \<and>
   sorted (map size (records initial_activity_data)) \<and>
   records (loop_body (FitDataMessage 3 ''lap'' []) initial_activity_data)
     = records initial_activity_data \<and>
   records (loop_body (FitDataMessage 4 ''session'' []) initial_activity_data)
     = records initial_activity_data"
proof -
  have h: "parse_fit_file status_colon_detail strict_reader ride_file = Inr initial_activity_data"
    by (rule parse_ride)
  from records_sorted_and_untouched [OF h, of size 3 "[]" initial_activity_data 4 "[]"
      initial_activity_data]
  show ?thesis using h by simp
qed

subsection \<open>Other message types\<close>

text \<open>
  Claim C10. A data frame whose message name is none of \<open>file_id\<close>, \<open>activity\<close>,
  \<open>session\<close>, \<open>lap\<close> and \<open>record\<close> is skipped: the loop body leaves the accumulated
  result unchanged and raises nothing, and the loop goes on with the remaining frames
  exactly as if the frame had not been there.
\<close>

theorem unknown_frames_skipped:
  "n \<notin> {''file_id'', ''activity'', ''session'', ''lap'', ''record''} \<Longrightarrow>
     loop_body (FitDataMessage l n fs) acc = acc \<and>
     for_frames (Yield (FitDataMessage l n fs) rest) acc = for_frames rest acc"
  by (simp add: loop_body_ident)

theorem unknown_frames_skipped_witness:
  "''event'' \<notin> {''file_id'', ''activity'', ''session'', ''lap'', ''record''} \<and>
   loop_body (FitDataMessage 1 ''event'' []) initial_activity_data = initial_activity_data \<and>
   for_frames (Yield (FitDataMessage 1 ''event'' []) (Yield FitCRC Stop)) initial_activity_data
     = for_frames (Yield FitCRC Stop) initial_activity_data"
proof -
  have h: "''event'' \<notin> {''file_id'', ''activity'', ''session'', ''lap'', ''record''}" by simp
  from unknown_frames_skipped [OF h, of 1 "[]" initial_activity_data "Yield FitCRC Stop"]
  show ?thesis using h by simp
qed

end
